theory Spec2Isabelle
  imports Main
begin

section \<open>Strings as the tools handle them\<close>

text \<open>
  JavaScript strings are modelled as \<^typ>\<open>string\<close>. The case mapping and the white space
  classes below cover the ASCII range.
\<close>

definition lower_char :: "char \<Rightarrow> char" where
  "lower_char c =
     (let n = (of_char c :: nat) in if 65 \<le> n \<and> n \<le> 90 then char_of (n + 32) else c)"

definition toLowerCase :: "string \<Rightarrow> string" where
  "toLowerCase s = map lower_char s"

text \<open>White space stripped by \<^verbatim>\<open>String.prototype.trim\<close>: TAB, LF, VT, FF, CR, SPACE.\<close>

definition js_space :: "char \<Rightarrow> bool" where
  "js_space c = ((of_char c :: nat) \<in> {9, 10, 11, 12, 13, 32})"

text \<open>ASCII white space of the DOM standard (token lists): TAB, LF, FF, CR, SPACE.\<close>

definition ascii_whitespace :: "char \<Rightarrow> bool" where
  "ascii_whitespace c = ((of_char c :: nat) \<in> {9, 10, 12, 13, 32})"

definition trim :: "string \<Rightarrow> string" where
  "trim s = rev (dropWhile js_space (rev (dropWhile js_space s)))"

text \<open>\<^verbatim>\<open>s.split(sep)\<close> for a one-character separator: empty pieces are kept.\<close>

fun split_on :: "(char \<Rightarrow> bool) \<Rightarrow> string \<Rightarrow> string list" where
  "split_on p [] = [[]]"
| "split_on p (c # cs) =
     (if p c then [] # split_on p cs
      else (case split_on p cs of [] \<Rightarrow> [[c]] | w # ws \<Rightarrow> (c # w) # ws))"

text \<open>\<^verbatim>\<open>xs.join(sep)\<close>.\<close>

fun join :: "string \<Rightarrow> string list \<Rightarrow> string" where
  "join sep [] = []"
| "join sep [x] = x"
| "join sep (x # y # ys) = x @ sep @ join sep (y # ys)"

text \<open>\<^verbatim>\<open>s.includes(t)\<close>.\<close>

fun str_includes :: "string \<Rightarrow> string \<Rightarrow> bool" where
  "str_includes [] t = (t = [])"
| "str_includes (c # cs) t = (take (length t) (c # cs) = t \<or> str_includes cs t)"

text \<open>Decimal rendering of a number inside a template string.\<close>

definition digit_char :: "nat \<Rightarrow> char" where
  "digit_char d = char_of (48 + d)"

fun show_nat :: "nat \<Rightarrow> string" where
  "show_nat n = (if n < 10 then [digit_char n] else show_nat (n div 10) @ [digit_char (n mod 10)])"

declare show_nat.simps [simp del]

definition show_int :: "int \<Rightarrow> string" where
  "show_int i = (if i < 0 then CHR ''-'' # show_nat (nat (- i)) else show_nat (nat i))"

text \<open>
  Truthiness of an optional string: \<^verbatim>\<open>undefined\<close> and the empty string are falsy.
  \<open>nonempty v\<close> is the string when \<open>v\<close> is truthy.
\<close>

definition nonempty :: "string option \<Rightarrow> string option" where
  "nonempty v = (case v of None \<Rightarrow> None | Some s \<Rightarrow> if s = [] then None else Some s)"

text \<open>\<^verbatim>\<open>v || d\<close> on an optional string.\<close>

definition or_else :: "string option \<Rightarrow> string \<Rightarrow> string" where
  "or_else v d = (case v of None \<Rightarrow> d | Some s \<Rightarrow> if s = [] then d else s)"

section \<open>The document tree\<close>

text \<open>
  The tools act on the live document of the hosting page through element references.
  The document is modelled as a store: an element reference is an index into the list of
  element objects, each object carries its parent reference and its child nodes, and a
  detached element stays in the store with no parent. Text nodes are held by value in
  the \<open>childNodes\<close> of their parent; comment nodes contribute to nothing the tools read and
  are left out. The document node itself is not an element and is not in the store (the
  root element has no \<open>parentElement\<close>).

  The inline style object is a total function from property names to strings, the empty
  string standing for an unset property, as the code reads and writes it
  (\<^verbatim>\<open>element.style[prop]\<close>), each property on its own; the browser's parsing and
  re-serialisation of CSS values, the coupling of shorthand and longhand properties,
  the \<^verbatim>\<open>cssText\<close> member and the reflection of the \<^verbatim>\<open>style\<close> content attribute are
  outside the model.
\<close>

type_synonym node_ref = nat

datatype child_node = TextNode string | ElementNode node_ref

datatype element_kind = HTMLElement | SVGElement | OtherElement

record element =
  tagName :: string
  kind :: element_kind
  attributes :: "(string \<times> string) list"
  style :: "string \<Rightarrow> string"
  childNodes :: "child_node list"
  parentElement :: "node_ref option"

type_synonym document = "element list"

definition lookup :: "document \<Rightarrow> node_ref \<Rightarrow> element option" where
  "lookup doc r = (if r < length doc then Some (doc ! r) else None)"

definition update_element :: "node_ref \<Rightarrow> (element \<Rightarrow> element) \<Rightarrow> document \<Rightarrow> document" where
  "update_element r f doc = (if r < length doc then doc[r := f (doc ! r)] else doc)"

definition getAttribute :: "element \<Rightarrow> string \<Rightarrow> string option" where
  "getAttribute e a = map_of (attributes e) a"

definition hasAttribute :: "element \<Rightarrow> string \<Rightarrow> bool" where
  "hasAttribute e a = (getAttribute e a \<noteq> None)"

fun set_attr :: "string \<Rightarrow> string \<Rightarrow> (string \<times> string) list \<Rightarrow> (string \<times> string) list" where
  "set_attr a v [] = [(a, v)]"
| "set_attr a v ((b, w) # rest) = (if a = b then (a, v) # rest else (b, w) # set_attr a v rest)"

text \<open>
  \<^verbatim>\<open>element.style[prop]\<close>: a camel-case name and its dashed form address the same
  declaration (\<^verbatim>\<open>backgroundColor\<close> and \<^verbatim>\<open>background-color\<close>), so the store is keyed by
  the dashed name.
\<close>

definition css_name :: "string \<Rightarrow> string" where
  "css_name prop =
     concat (map (\<lambda>c. if lower_char c \<noteq> c then [CHR ''-'', lower_char c] else [c]) prop)"

definition get_style :: "element \<Rightarrow> string \<Rightarrow> string" where
  "get_style e prop = style e (css_name prop)"

definition set_style :: "string \<Rightarrow> string \<Rightarrow> element \<Rightarrow> element" where
  "set_style prop v e = e\<lparr>style := (style e)(css_name prop := v)\<rparr>"

text \<open>\<^verbatim>\<open>el.id\<close> and \<^verbatim>\<open>el.className\<close> reflect the content attributes, empty when absent.\<close>

definition el_id :: "element \<Rightarrow> string" where
  "el_id e = (case getAttribute e ''id'' of None \<Rightarrow> [] | Some v \<Rightarrow> v)"

definition className :: "element \<Rightarrow> string" where
  "className e = (case getAttribute e ''class'' of None \<Rightarrow> [] | Some v \<Rightarrow> v)"

text \<open>
  On an SVG element \<^verbatim>\<open>el.className\<close> is an object (an animated string), which is always
  truthy; on every other element it is the attribute's string.
\<close>

definition className_truthy :: "element \<Rightarrow> bool" where
  "className_truthy e = (kind e = SVGElement \<or> className e \<noteq> [])"

text \<open>The ordered set of a token list: the first occurrence of each token is kept.\<close>

fun ordered_set :: "string list \<Rightarrow> string list \<Rightarrow> string list" where
  "ordered_set acc [] = acc"
| "ordered_set acc (t # ts) = ordered_set (if t \<in> set acc then acc else acc @ [t]) ts"

definition classList :: "element \<Rightarrow> string list" where
  "classList e = ordered_set [] (filter (\<lambda>w. w \<noteq> []) (split_on ascii_whitespace (className e)))"

text \<open>
  \<^verbatim>\<open>el.textContent\<close>: the text of all descendant text nodes, in tree order. The recursion
  follows child references; its fuel is the size of the store, which bounds the depth of
  every tree held in it.
\<close>

fun textContent_aux :: "nat \<Rightarrow> document \<Rightarrow> node_ref \<Rightarrow> string" where
  "textContent_aux 0 doc r = []"
| "textContent_aux (Suc k) doc r =
     (case lookup doc r of
        None \<Rightarrow> []
      | Some e \<Rightarrow>
          concat (map (\<lambda>c. case c of TextNode s \<Rightarrow> s | ElementNode r' \<Rightarrow> textContent_aux k doc r')
                      (childNodes e)))"

definition textContent :: "document \<Rightarrow> node_ref \<Rightarrow> string" where
  "textContent doc r = textContent_aux (length doc) doc r"

text \<open>
  \<^verbatim>\<open>el.closest('.chat-widget-container')\<close>: the nearest inclusive ancestor carrying the
  class of the widget's root container.
\<close>

fun closest_aux :: "nat \<Rightarrow> document \<Rightarrow> node_ref \<Rightarrow> node_ref option" where
  "closest_aux 0 doc r = None"
| "closest_aux (Suc k) doc r =
     (case lookup doc r of
        None \<Rightarrow> None
      | Some e \<Rightarrow>
          if ''chat-widget-container'' \<in> set (classList e) then Some r
          else (case parentElement e of None \<Rightarrow> None | Some p \<Rightarrow> closest_aux k doc p))"

definition closest_widget :: "document \<Rightarrow> node_ref \<Rightarrow> node_ref option" where
  "closest_widget doc r = closest_aux (length doc) doc r"

text \<open>\<^verbatim>\<open>parent.children\<close>: the element children, in order.\<close>

fun element_children :: "child_node list \<Rightarrow> node_ref list" where
  "element_children [] = []"
| "element_children (TextNode s # cs) = element_children cs"
| "element_children (ElementNode r # cs) = r # element_children cs"

fun text_children :: "child_node list \<Rightarrow> string list" where
  "text_children [] = []"
| "text_children (TextNode s # cs) = s # text_children cs"
| "text_children (ElementNode r # cs) = text_children cs"

text \<open>\<^verbatim>\<open>xs.indexOf(x) + 1\<close>: 0 when \<open>x\<close> is absent.\<close>

fun indexOf_plus1 :: "node_ref list \<Rightarrow> node_ref \<Rightarrow> nat" where
  "indexOf_plus1 [] r = 0"
| "indexOf_plus1 (x # xs) r =
     (if x = r then 1 else (case indexOf_plus1 xs r of 0 \<Rightarrow> 0 | Suc i \<Rightarrow> Suc (Suc i)))"

text \<open>
  The selector engine, \<^verbatim>\<open>document.getElementById\<close>, \<^verbatim>\<open>document.head\<close> and the test for a
  valid attribute name belong to the browser. The tools are modelled over any such
  engine: \<open>querySelectorAll\<close> returns the matched references in document order, or \<open>None\<close>
  when the selector does not parse (a \<^verbatim>\<open>SyntaxError\<close> is thrown).
\<close>

record dom_api =
  querySelectorAll :: "string \<Rightarrow> document \<Rightarrow> node_ref list option"
  getElementById :: "string \<Rightarrow> document \<Rightarrow> node_ref option"
  documentHead :: "document \<Rightarrow> node_ref option"
  validAttributeName :: "string \<Rightarrow> bool"


section \<open>The mutation tool: \<open>modifyElement\<close>\<close>

datatype action = Text | Style | Attribute | AddClass | RemoveClass | Remove

datatype dom_exception = SyntaxError | InvalidCharacterError | TypeError

record modify_result =
  success :: bool
  elementsModified :: nat

text \<open>
  \<^verbatim>\<open>element.textContent = s\<close>: the children are detached and replaced by a single text
  node, or by nothing when the string is empty.
\<close>

definition detach_children :: "node_ref list \<Rightarrow> document \<Rightarrow> document" where
  "detach_children rs doc = fold (\<lambda>c. update_element c (\<lambda>e. e\<lparr>parentElement := None\<rparr>)) rs doc"

definition set_textContent :: "node_ref \<Rightarrow> string \<Rightarrow> document \<Rightarrow> document" where
  "set_textContent r s doc =
     (case lookup doc r of
        None \<Rightarrow> doc
      | Some e \<Rightarrow>
          update_element r (\<lambda>e. e\<lparr>childNodes := (if s = [] then [] else [TextNode s])\<rparr>)
            (detach_children (element_children (childNodes e)) doc))"

text \<open>
  The style string is split at \<open>;\<close>, each piece trimmed and the empty ones dropped; each
  piece is split at \<open>:\<close> and its first two parts, trimmed, are the property and the value.
  A piece with an empty or missing part is skipped.
\<close>

definition style_pairs :: "string \<Rightarrow> (string \<times> string) list" where
  "style_pairs v =
     List.map_filter
       (\<lambda>piece. case map trim (split_on (\<lambda>c. c = CHR '':'') piece) of
                  prop # val # _ \<Rightarrow> if prop \<noteq> [] \<and> val \<noteq> [] then Some (prop, val) else None
                | _ \<Rightarrow> None)
       (filter (\<lambda>s. s \<noteq> []) (map trim (split_on (\<lambda>c. c = CHR '';'') v)))"

text \<open>
  \<^verbatim>\<open>(element.style as any)[prop] = val\<close> runs in module code, which is strict: the
  assignment throws a \<^verbatim>\<open>TypeError\<close> when \<open>prop\<close> names a member of the style object that
  cannot be written, which are its read-only attributes \<^verbatim>\<open>length\<close> and \<^verbatim>\<open>parentRule\<close> and
  its indexed properties (an array index: a decimal numeral without leading zero, below
  4294967295). Every other name is stored (a CSS property, or a property of the object
  that the style ignores).
\<close>

definition is_digit :: "char \<Rightarrow> bool" where
  "is_digit c = (let n = (of_char c :: nat) in 48 \<le> n \<and> n \<le> 57)"

definition digits_value :: "string \<Rightarrow> int" where
  "digits_value s = foldl (\<lambda>n c. 10 * n + ((of_char c :: int) - 48)) 0 s"

definition is_array_index :: "string \<Rightarrow> bool" where
  "is_array_index s =
     (case s of
        [] \<Rightarrow> False
      | c # cs \<Rightarrow>
          list_all is_digit s \<and> (cs = [] \<or> c \<noteq> CHR ''0'') \<and> digits_value s < 4294967295)"

definition readonly_style_member :: "string \<Rightarrow> bool" where
  "readonly_style_member prop =
     (prop = ''length'' \<or> prop = ''parentRule'' \<or> is_array_index prop)"

text \<open>
  The inner \<^verbatim>\<open>styles.forEach\<close>: the pairs are assigned in order; a throwing assignment
  leaves the loop, with the pairs before it assigned.
\<close>

fun assign_styles :: "(string \<times> string) list \<Rightarrow> element \<Rightarrow> element \<times> dom_exception option" where
  "assign_styles [] e = (e, None)"
| "assign_styles ((prop, val) # ps) e =
     (if readonly_style_member prop then (e, Some TypeError)
      else assign_styles ps (set_style prop val e))"

text \<open>
  \<^verbatim>\<open>classList.add\<close> and \<^verbatim>\<open>classList.remove\<close> validate their tokens in order before they
  change anything: an empty token throws a \<^verbatim>\<open>SyntaxError\<close>, a token with ASCII white space
  an \<^verbatim>\<open>InvalidCharacterError\<close>.
\<close>

fun validate_tokens :: "string list \<Rightarrow> dom_exception option" where
  "validate_tokens [] = None"
| "validate_tokens (t # ts) =
     (if t = [] then Some SyntaxError
      else if list_ex ascii_whitespace t then Some InvalidCharacterError
      else validate_tokens ts)"

text \<open>
  The update steps of a token list: with no \<^verbatim>\<open>class\<close> attribute and an empty token set
  nothing is written; otherwise the attribute becomes the tokens joined by spaces.
\<close>

definition write_classes :: "string list \<Rightarrow> element \<Rightarrow> element" where
  "write_classes ts e =
     (if \<not> hasAttribute e ''class'' \<and> ts = [] then e
      else e\<lparr>attributes := set_attr ''class'' (join '' '' ts) (attributes e)\<rparr>)"

definition classList_add :: "string list \<Rightarrow> element \<Rightarrow> element" where
  "classList_add ts e = write_classes (ordered_set (classList e) ts) e"

definition classList_remove :: "string list \<Rightarrow> element \<Rightarrow> element" where
  "classList_remove ts e = write_classes (filter (\<lambda>c. c \<notin> set ts) (classList e)) e"

text \<open>
  \<^verbatim>\<open>element.remove()\<close>: the element leaves its parent's children and loses its parent.
  (The root element, whose parent is the document node, has no parent in the store and
  is left as it is.)
\<close>

definition remove_node :: "node_ref \<Rightarrow> document \<Rightarrow> document" where
  "remove_node r doc =
     (case lookup doc r of
        None \<Rightarrow> doc
      | Some e \<Rightarrow>
          (case parentElement e of
             None \<Rightarrow> doc
           | Some p \<Rightarrow>
               update_element r (\<lambda>e. e\<lparr>parentElement := None\<rparr>)
                 (update_element p
                    (\<lambda>pe. pe\<lparr>childNodes := filter (\<lambda>c. c \<noteq> ElementNode r) (childNodes pe)\<rparr>) doc)))"

text \<open>
  The body of the \<^verbatim>\<open>forEach\<close> callback, one \<^verbatim>\<open>switch\<close> case per action: the
  document as the callback leaves it, and the exception it throws, if any.
\<close>

definition modify_one ::
  "dom_api \<Rightarrow> action \<Rightarrow> string option \<Rightarrow> string option \<Rightarrow> document \<Rightarrow> node_ref
     \<Rightarrow> document \<times> dom_exception option" where
  "modify_one api act val attribute doc r =
     (case act of
        Text \<Rightarrow>
          (case lookup doc r of
             None \<Rightarrow> (doc, None)
           | Some e \<Rightarrow>
               if kind e = HTMLElement then (set_textContent r (or_else val []) doc, None)
               else (doc, None))
      | Style \<Rightarrow>
          (case (lookup doc r, nonempty val) of
             (Some e, Some v) \<Rightarrow>
               if kind e = HTMLElement
               then (case assign_styles (style_pairs v) e of
                       (e', x) \<Rightarrow> (update_element r (\<lambda>_. e') doc, x))
               else (doc, None)
           | _ \<Rightarrow> (doc, None))
      | Attribute \<Rightarrow>
          (case (nonempty attribute, val) of
             (Some a, Some v) \<Rightarrow>
               if validAttributeName api a
               then (update_element r (\<lambda>e. e\<lparr>attributes := set_attr a v (attributes e)\<rparr>) doc,
                     None)
               else (doc, Some InvalidCharacterError)
           | _ \<Rightarrow> (doc, None))
      | AddClass \<Rightarrow>
          (case nonempty val of
             None \<Rightarrow> (doc, None)
           | Some v \<Rightarrow>
               (case validate_tokens (split_on (\<lambda>c. c = CHR '' '') v) of
                  Some ex \<Rightarrow> (doc, Some ex)
                | None \<Rightarrow>
                    (update_element r (classList_add (split_on (\<lambda>c. c = CHR '' '') v)) doc,
                     None)))
      | RemoveClass \<Rightarrow>
          (case nonempty val of
             None \<Rightarrow> (doc, None)
           | Some v \<Rightarrow>
               (case validate_tokens (split_on (\<lambda>c. c = CHR '' '') v) of
                  Some ex \<Rightarrow> (doc, Some ex)
                | None \<Rightarrow>
                    (update_element r (classList_remove (split_on (\<lambda>c. c = CHR '' '') v)) doc,
                     None)))
      | Remove \<Rightarrow> (remove_node r doc, None))"

text \<open>
  \<^verbatim>\<open>elements.forEach(...)\<close> over the static node list: the document is threaded through,
  and an exception leaves the loop with the document as it stands.
\<close>

fun modify_each ::
  "dom_api \<Rightarrow> action \<Rightarrow> string option \<Rightarrow> string option \<Rightarrow> node_ref list \<Rightarrow> document
     \<Rightarrow> document \<times> dom_exception option" where
  "modify_each api act val attribute [] doc = (doc, None)"
| "modify_each api act val attribute (r # rs) doc =
     (case modify_one api act val attribute doc r of
        (doc', Some ex) \<Rightarrow> (doc', Some ex)
      | (doc', None) \<Rightarrow> modify_each api act val attribute rs doc')"

text \<open>
  \<open>modifyElement\<close>: the new document and the result object (its \<open>message\<close> text is not
  modelled). Every exception ends in the \<^verbatim>\<open>catch\<close> block.
\<close>

definition modifyElement ::
  "dom_api \<Rightarrow> string \<Rightarrow> action \<Rightarrow> string option \<Rightarrow> string option \<Rightarrow> document
     \<Rightarrow> document \<times> modify_result" where
  "modifyElement api selector act val attribute doc =
     (case querySelectorAll api selector doc of
        None \<Rightarrow> (doc, \<lparr>success = False, elementsModified = 0\<rparr>)
      | Some elements \<Rightarrow>
          if length elements = 0 then (doc, \<lparr>success = False, elementsModified = 0\<rparr>)
          else
            (case modify_each api act val attribute elements doc of
               (doc', Some ex) \<Rightarrow> (doc', \<lparr>success = False, elementsModified = 0\<rparr>)
             | (doc', None) \<Rightarrow> (doc', \<lparr>success = True, elementsModified = length elements\<rparr>)))"

section \<open>The search tool: \<open>searchElements\<close>\<close>

datatype searchType = SearchText | SearchTag | SearchAttribute | SearchClass | SearchId | SearchAll

text \<open>
  One entry of \<open>results\<close>. The optional members of the source's object are options here:
  a member the code never assigns is \<open>None\<close>.
\<close>

record descriptor =
  tagName_out :: string
  text_out :: string
  id_out :: "string option"
  classes_out :: "string list option"
  selector_out :: "string option"
  attributes_out :: "(string \<times> string) list option"

record search_result =
  success_s :: bool
  results :: "descriptor list"
  totalFound :: "nat option"

text \<open>The direct text of an element: its own text nodes, trimmed, the empty ones dropped,
  joined by single spaces.\<close>

definition directText :: "element \<Rightarrow> string" where
  "directText e = join '' '' (filter (\<lambda>t. t \<noteq> []) (map trim (text_children (childNodes e))))"

definition in_widget :: "document \<Rightarrow> node_ref \<Rightarrow> bool" where
  "in_widget doc r = (closest_widget doc r \<noteq> None)"

text \<open>The filter callback of the \<^verbatim>\<open>'text'\<close> case.\<close>

definition text_filter :: "document \<Rightarrow> string \<Rightarrow> node_ref \<Rightarrow> bool" where
  "text_filter doc searchValue r =
     (case lookup doc r of
        None \<Rightarrow> False
      | Some e \<Rightarrow>
          if in_widget doc r then False
          else if toLowerCase (tagName e) = ''li'' then
            toLowerCase searchValue = ''li''
            \<or> str_includes (toLowerCase (directText e)) (toLowerCase searchValue)
            \<or> str_includes (toLowerCase (textContent doc r)) (toLowerCase searchValue)
          else str_includes (toLowerCase (textContent doc r)) (toLowerCase searchValue))"

text \<open>The filter callback of the \<^verbatim>\<open>'all'\<close> case.\<close>

definition all_filter :: "document \<Rightarrow> string \<Rightarrow> node_ref \<Rightarrow> bool" where
  "all_filter doc searchValue r =
     (if in_widget doc r then False
      else str_includes (toLowerCase (textContent doc r)) (toLowerCase searchValue))"

text \<open>
  The \<^verbatim>\<open>switch\<close> over the search type: the value of \<open>elements\<close> after it, or \<open>None\<close> when
  the selector engine threw.
\<close>

definition search_candidates ::
  "dom_api \<Rightarrow> searchType \<Rightarrow> string \<Rightarrow> string option \<Rightarrow> document \<Rightarrow> node_ref list option" where
  "search_candidates api searchType searchValue tag doc =
     (case searchType of
        SearchAll \<Rightarrow>
          if toLowerCase searchValue = ''list''
             \<or> str_includes (toLowerCase searchValue) ''list items''
          then querySelectorAll api ''li'' doc
          else map_option (filter (all_filter doc searchValue)) (querySelectorAll api ''*'' doc)
      | SearchText \<Rightarrow>
          map_option (filter (text_filter doc searchValue))
            (querySelectorAll api (or_else tag ''*'') doc)
      | SearchTag \<Rightarrow>
          map_option (filter (\<lambda>r. \<not> in_widget doc r)) (querySelectorAll api searchValue doc)
      | SearchAttribute \<Rightarrow> querySelectorAll api (''['' @ searchValue @ '']'') doc
      | SearchClass \<Rightarrow> querySelectorAll api (''.'' @ searchValue) doc
      | SearchId \<Rightarrow>
          Some (case getElementById api searchValue doc of None \<Rightarrow> [] | Some r \<Rightarrow> [r]))"

text \<open>
  \<^verbatim>\<open>xs.slice(0, limit)\<close> for an integral limit: a negative limit counts from the end.
  (The schema accepts any number; \<^verbatim>\<open>slice\<close> truncates a fractional one towards zero.)
\<close>

definition slice0 :: "'a list \<Rightarrow> int \<Rightarrow> 'a list" where
  "slice0 xs limit =
     (if limit < 0 then take (nat (int (length xs) + limit)) xs else take (nat limit) xs)"

text \<open>The located elements: the widget's subtree filtered out, then the limit applied.\<close>

definition locate ::
  "dom_api \<Rightarrow> searchType \<Rightarrow> string \<Rightarrow> string option \<Rightarrow> int \<Rightarrow> document \<Rightarrow> node_ref list option" where
  "locate api searchType searchValue tag limit doc =
     map_option (\<lambda>elements. slice0 (filter (\<lambda>r. \<not> in_widget doc r) elements) limit)
       (search_candidates api searchType searchValue tag doc)"

text \<open>The selector of a result, as the \<^verbatim>\<open>if\<close> / \<^verbatim>\<open>else if\<close> chain builds it.\<close>

definition nth_child_selector :: "document \<Rightarrow> node_ref \<Rightarrow> element \<Rightarrow> string option" where
  "nth_child_selector doc r e =
     (case parentElement e of
        None \<Rightarrow> None
      | Some p \<Rightarrow>
          (case lookup doc p of
             None \<Rightarrow> None
           | Some parent \<Rightarrow>
               Some (toLowerCase (tagName parent) @ '' > '' @ toLowerCase (tagName e)
                     @ '':nth-child(''
                     @ show_nat (indexOf_plus1 (element_children (childNodes parent)) r)
                     @ '')'')))"

definition build_selector ::
  "document \<Rightarrow> node_ref \<Rightarrow> element \<Rightarrow> string option \<times> string list option \<times> string option" where
  "build_selector doc r e =
     (if el_id e \<noteq> [] then (Some (el_id e), None, Some (''#'' @ el_id e))
      else if className_truthy e then
        (let classes = filter (\<lambda>c. take 11 c \<noteq> ''chat-widget'') (classList e) in
           case classes of
             c # _ \<Rightarrow> (None, Some classes, Some (''.'' @ c))
           | [] \<Rightarrow> (None, Some classes, nth_child_selector doc r e))
      else (None, None, None))"

definition key_attributes :: "element \<Rightarrow> (string \<times> string) list" where
  "key_attributes e =
     List.map_filter (\<lambda>a. map_option (\<lambda>v. (a, v)) (getAttribute e a))
       [''href'', ''src'', ''type'', ''name'', ''value'', ''placeholder'']"

text \<open>
  The body of the \<^verbatim>\<open>forEach\<close> that builds the results. The two reads of a list item's
  marker, whose values the code never uses, are left out. A reference with no object
  (which no selector engine returns) yields no descriptor.
\<close>

definition describe :: "document \<Rightarrow> node_ref \<Rightarrow> descriptor option" where
  "describe doc r =
     (case lookup doc r of
        None \<Rightarrow> None
      | Some e \<Rightarrow>
          (let textContent' =
                 (if toLowerCase (tagName e) = ''li''
                  then (if directText e \<noteq> [] then directText e else trim (textContent doc r))
                  else trim (textContent doc r));
               (i, cs, sel) = build_selector doc r e;
               attrs = key_attributes e
           in Some \<lparr>tagName_out = toLowerCase (tagName e),
                    text_out = take 100 textContent',
                    id_out = i, classes_out = cs, selector_out = sel,
                    attributes_out = (if length attrs > 0 then Some attrs else None)\<rparr>))"

definition searchElements ::
  "dom_api \<Rightarrow> searchType \<Rightarrow> string \<Rightarrow> string option \<Rightarrow> int \<Rightarrow> document \<Rightarrow> search_result" where
  "searchElements api searchType searchValue tag limit doc =
     (case locate api searchType searchValue tag limit doc of
        None \<Rightarrow> \<lparr>success_s = False, results = [], totalFound = None\<rparr>
      | Some elements \<Rightarrow>
          (let rs = List.map_filter (describe doc) elements
           in \<lparr>success_s = True, results = rs, totalFound = Some (length rs)\<rparr>))"

text \<open>The schema's default for an omitted limit.\<close>

definition limit_default :: "int option \<Rightarrow> int" where
  "limit_default l = (case l of None \<Rightarrow> 10 | Some n \<Rightarrow> n)"

section \<open>The highlight tool: \<open>highlightElements\<close>\<close>

datatype effect = Border | Background | Pulse | Shake | Glow

record originalStyles =
  border :: string
  backgroundColor :: string
  animation :: string
  boxShadow :: string
  transition :: string

text \<open>A callback scheduled with \<^verbatim>\<open>setTimeout\<close>: the element, the captured styles, the delay.\<close>

record restore_timer =
  timer_element :: node_ref
  timer_styles :: originalStyles
  timer_delay :: int

record highlight_result =
  success_h :: bool
  elementsHighlighted :: nat

definition capture :: "element \<Rightarrow> originalStyles" where
  "capture e =
     \<lparr>border = get_style e ''border'', backgroundColor = get_style e ''backgroundColor'',
      animation = get_style e ''animation'', boxShadow = get_style e ''boxShadow'',
      transition = get_style e ''transition''\<rparr>"

definition apply_effect :: "effect \<Rightarrow> string \<Rightarrow> int \<Rightarrow> element \<Rightarrow> element" where
  "apply_effect eff color duration e =
     (case eff of
        Border \<Rightarrow> set_style ''border'' (''3px solid '' @ color) e
      | Background \<Rightarrow> set_style ''backgroundColor'' (color @ ''30'') e
      | Pulse \<Rightarrow>
          set_style ''animation'' (''pulse-effect '' @ show_int duration @ ''ms ease-in-out infinite'') e
      | Shake \<Rightarrow>
          set_style ''animation'' (''shake-effect '' @ show_int duration @ ''ms ease-in-out'') e
      | Glow \<Rightarrow>
          set_style ''color'' color
            (set_style ''animation''
               (''glow-effect '' @ show_int duration @ ''ms ease-in-out infinite'') e))"

text \<open>The body of the \<^verbatim>\<open>forEach\<close> callback: the new document and the timer it schedules.\<close>

definition highlight_one ::
  "effect \<Rightarrow> string \<Rightarrow> int \<Rightarrow> document \<Rightarrow> node_ref \<Rightarrow> document \<times> restore_timer list" where
  "highlight_one eff color duration doc r =
     (case lookup doc r of
        None \<Rightarrow> (doc, [])
      | Some e \<Rightarrow>
          if kind e \<noteq> HTMLElement then (doc, [])
          else
            (update_element r
               (\<lambda>e. apply_effect eff color duration (set_style ''transition'' ''all 0.3s ease'' e)) doc,
             [\<lparr>timer_element = r, timer_styles = capture e, timer_delay = duration\<rparr>]))"

fun highlight_each ::
  "effect \<Rightarrow> string \<Rightarrow> int \<Rightarrow> node_ref list \<Rightarrow> document \<Rightarrow> document \<times> restore_timer list" where
  "highlight_each eff color duration [] doc = (doc, [])"
| "highlight_each eff color duration (r # rs) doc =
     (case highlight_one eff color duration doc r of
        (doc', ts) \<Rightarrow>
          (case highlight_each eff color duration rs doc' of
             (doc'', ts') \<Rightarrow> (doc'', ts @ ts')))"

text \<open>The timer callback: each captured entry is written back (\<^verbatim>\<open>value || ''\<close>).\<close>

definition restore_styles :: "originalStyles \<Rightarrow> element \<Rightarrow> element" where
  "restore_styles orig e =
     set_style ''transition'' (transition orig)
       (set_style ''boxShadow'' (boxShadow orig)
          (set_style ''animation'' (animation orig)
             (set_style ''backgroundColor'' (backgroundColor orig)
                (set_style ''border'' (border orig) e))))"

definition fire_timer :: "restore_timer \<Rightarrow> document \<Rightarrow> document" where
  "fire_timer t doc = update_element (timer_element t) (restore_styles (timer_styles t)) doc"

text \<open>The timers of one call share one delay and fire in the order they were scheduled.\<close>

definition fire_timers :: "restore_timer list \<Rightarrow> document \<Rightarrow> document" where
  "fire_timers ts doc = fold fire_timer ts doc"

text \<open>
  The shared keyframe style element, installed in \<^verbatim>\<open>document.head\<close> unless an element
  with its identifier exists (its style sheet text is condensed to one line here).
\<close>

definition animations_element :: "node_ref \<Rightarrow> element" where
  "animations_element h =
     \<lparr>tagName = ''STYLE'', kind = HTMLElement,
      attributes = [(''id'', ''chat-widget-animations'')],
      style = (\<lambda>_. []),
      childNodes = [TextNode ''@keyframes pulse-effect {...} @keyframes shake-effect {...} @keyframes glow-effect {...}''],
      parentElement = Some h\<rparr>"

definition ensure_animations :: "dom_api \<Rightarrow> document \<Rightarrow> dom_exception + document" where
  "ensure_animations api doc =
     (case getElementById api ''chat-widget-animations'' doc of
        Some _ \<Rightarrow> Inr doc
      | None \<Rightarrow>
          (case documentHead api doc of
             None \<Rightarrow> Inl TypeError
           | Some h \<Rightarrow>
               Inr (update_element h
                      (\<lambda>e. e\<lparr>childNodes := childNodes e @ [ElementNode (length doc)]\<rparr>) doc
                    @ [animations_element h])))"

text \<open>
  \<open>highlightElements\<close>: the new document, the timers left pending, and the result object.
\<close>

definition highlightElements ::
  "dom_api \<Rightarrow> string \<Rightarrow> effect \<Rightarrow> string \<Rightarrow> int \<Rightarrow> document
     \<Rightarrow> document \<times> restore_timer list \<times> highlight_result" where
  "highlightElements api selector eff color duration doc =
     (case querySelectorAll api selector doc of
        None \<Rightarrow> (doc, [], \<lparr>success_h = False, elementsHighlighted = 0\<rparr>)
      | Some elements \<Rightarrow>
          if length elements = 0 then (doc, [], \<lparr>success_h = False, elementsHighlighted = 0\<rparr>)
          else
            (case ensure_animations api doc of
               Inl ex \<Rightarrow> (doc, [], \<lparr>success_h = False, elementsHighlighted = 0\<rparr>)
             | Inr doc1 \<Rightarrow>
                 (case highlight_each eff color duration elements doc1 of
                    (doc2, ts) \<Rightarrow>
                      (doc2, ts, \<lparr>success_h = True, elementsHighlighted = length elements\<rparr>))))"

section \<open>The streaming orchestrator: \<open>handleSubmit\<close>\<close>

text \<open>
  The model's answer reaches \<open>handleSubmit\<close> as a stream of parts; the stream, its end and
  its faults are inputs of the model, as are the readings of the clock.
\<close>

datatype role = User | Assistant | System | Tool

text \<open>Tool arguments and tool outputs are opaque values to the orchestrator.\<close>

type_synonym payload = string

record ToolInvocation =
  toolCallId :: string
  toolName :: string
  args :: payload
  result :: "payload option"

record Message =
  mid :: string
  role :: role
  content :: string
  toolInvocations :: "ToolInvocation list option"
  timestamp :: nat

text \<open>The parts of \<^verbatim>\<open>result.fullStream\<close>; the \<^verbatim>\<open>switch\<close> has no case for the other kinds.\<close>

datatype part =
  TextDelta string
| ToolCall string string payload
| ToolResult string payload
| ErrorPart string
| OtherPart

text \<open>
  The local variables of one running call of \<open>handleSubmit\<close>. \<open>currentToolCall\<close> refers to
  an object that is also an entry of the local \<open>toolInvocations\<close> array: it is modelled
  as the index of that entry, so that assigning its \<open>result\<close> changes the array.
\<close>

record turn =
  assistantId :: string
  fullContent :: string
  invocations :: "ToolInvocation list"
  currentToolCall :: "nat option"

text \<open>The locals of a call when its stream opens.\<close>

definition new_turn :: "string \<Rightarrow> turn" where
  "new_turn aid = \<lparr>assistantId = aid, fullContent = [], invocations = [], currentToolCall = None\<rparr>"

text \<open>
  The \<^verbatim>\<open>switch\<close> over one stream part: the locals and the \<open>messages\<close> state after it.
  A state update queued with \<^verbatim>\<open>setMessages\<close> is taken as applied before the next part is
  read.
\<close>

definition consume :: "part \<Rightarrow> turn \<times> Message list \<Rightarrow> turn \<times> Message list" where
  "consume p s =
     (case s of (t, msgs) \<Rightarrow>
        (case p of
           TextDelta txt \<Rightarrow>
             if txt \<noteq> [] then
               (t\<lparr>fullContent := fullContent t @ txt\<rparr>,
                map (\<lambda>m. if mid m = assistantId t then m\<lparr>content := fullContent t @ txt\<rparr> else m) msgs)
             else (t, msgs)
         | ToolCall i name input \<Rightarrow>
             (t\<lparr>invocations :=
                   invocations t @ [\<lparr>toolCallId = i, toolName = name, args = input, result = None\<rparr>],
                currentToolCall := Some (length (invocations t))\<rparr>,
              msgs)
         | ToolResult i output \<Rightarrow>
             (case currentToolCall t of
                None \<Rightarrow> (t, msgs)
              | Some c \<Rightarrow>
                  if c < length (invocations t) \<and> toolCallId (invocations t ! c) = i then
                    (let invs = (invocations t)[c := (invocations t ! c)\<lparr>result := Some output\<rparr>]
                     in (t\<lparr>invocations := invs\<rparr>,
                         map (\<lambda>m. if mid m = assistantId t then m\<lparr>toolInvocations := Some invs\<rparr> else m)
                             msgs))
                  else (t, msgs))
         | ErrorPart e \<Rightarrow> (t, msgs)
         | OtherPart \<Rightarrow> (t, msgs)))"

text \<open>
  The component's state, and the calls of \<open>handleSubmit\<close> that are suspended at an
  \<^verbatim>\<open>await\<close> (\<open>turns\<close>). \<open>handleSubmit\<close> reads \<open>input\<close> and \<open>isLoading\<close> of the latest render.
\<close>

record widget =
  messages :: "Message list"
  input :: string
  isLoading :: bool
  turns :: "turn list"

text \<open>
  What can happen to the component: the user types, the form is submitted (with the two
  clock readings the call takes), the stream of the \<open>k\<close>-th running call yields a part, is
  exhausted, or faults (with the clock reading of the \<^verbatim>\<open>catch\<close> block).
\<close>

datatype event =
  Typed string
| Submit nat nat
| StreamPart nat part
| StreamEnd nat
| StreamFault nat nat

definition errorMessage :: "nat \<Rightarrow> Message" where
  "errorMessage now =
     \<lparr>mid = show_nat now, role = System,
      content = ''Sorry, something went wrong. Please try again.'',
      toolInvocations = None, timestamp = now\<rparr>"

definition remove_nth :: "nat \<Rightarrow> 'a list \<Rightarrow> 'a list" where
  "remove_nth k xs = take k xs @ drop (Suc k) xs"

text \<open>
  \<open>Submit\<close> is the synchronous head of \<open>handleSubmit\<close>, up to the first \<^verbatim>\<open>await\<close>: the guard,
  the user message, the placeholder of the assistant, the loading flag. \<open>StreamPart\<close> is
  one round of the \<^verbatim>\<open>for await\<close> loop, \<open>StreamEnd\<close> the \<^verbatim>\<open>finally\<close> block after the loop,
  \<open>StreamFault\<close> the \<^verbatim>\<open>catch\<close> block followed by the \<^verbatim>\<open>finally\<close> block.
\<close>

definition step :: "event \<Rightarrow> widget \<Rightarrow> widget" where
  "step ev w =
     (case ev of
        Typed s \<Rightarrow> w\<lparr>input := s\<rparr>
      | Submit now1 now2 \<Rightarrow>
          if trim (input w) = [] \<or> isLoading w then w
          else
            w\<lparr>messages := messages w
                 @ [\<lparr>mid = show_nat now1, role = User, content = trim (input w),
                     toolInvocations = None, timestamp = now1\<rparr>,
                    \<lparr>mid = show_nat (now2 + 1), role = Assistant, content = [],
                     toolInvocations = None, timestamp = now2\<rparr>],
              input := [],
              isLoading := True,
              turns := turns w @ [new_turn (show_nat (now2 + 1))]\<rparr>
      | StreamPart k p \<Rightarrow>
          if k < length (turns w) then
            (case consume p (turns w ! k, messages w) of
               (t, msgs) \<Rightarrow> w\<lparr>messages := msgs, turns := (turns w)[k := t]\<rparr>)
          else w
      | StreamEnd k \<Rightarrow>
          if k < length (turns w) then w\<lparr>isLoading := False, turns := remove_nth k (turns w)\<rparr>
          else w
      | StreamFault k now \<Rightarrow>
          if k < length (turns w)
          then w\<lparr>messages := messages w @ [errorMessage now], isLoading := False,
                 turns := remove_nth k (turns w)\<rparr>
          else w)"

definition run :: "event list \<Rightarrow> widget \<Rightarrow> widget" where
  "run evs w = fold step evs w"

text \<open>The component as first rendered: the welcome message, nothing typed, no call running.\<close>

definition initial :: "string \<Rightarrow> nat \<Rightarrow> widget" where
  "initial welcomeMessage now =
     \<lparr>messages = [\<lparr>mid = ''1'', role = Assistant, content = welcomeMessage,
                   toolInvocations = None, timestamp = now\<rparr>],
      input = [], isLoading = False, turns = []\<rparr>"

text \<open>The loop over the parts read so far.\<close>

definition consume_all :: "part list \<Rightarrow> turn \<times> Message list \<Rightarrow> turn \<times> Message list" where
  "consume_all ps s = fold consume ps s"

text \<open>An invocation is open when it has been recorded and carries no result yet.\<close>

definition open_invocation :: "turn \<Rightarrow> string \<Rightarrow> bool" where
  "open_invocation t i = list_ex (\<lambda>v. toolCallId v = i \<and> result v = None) (invocations t)"

section \<open>A selector engine for simple selectors, and example documents\<close>

text \<open>
  The examples below run the tools on concrete documents. They use an engine that
  understands the universal selector and a single type, identifier, class or attribute
  selector, over the tree rooted at reference 0, in document order. On these selectors
  it returns what a browser returns for an HTML document; every other string is
  reported as a syntax error, which no example relies on.
\<close>

fun preorder :: "nat \<Rightarrow> document \<Rightarrow> node_ref \<Rightarrow> node_ref list" where
  "preorder 0 doc r = []"
| "preorder (Suc k) doc r =
     (case lookup doc r of
        None \<Rightarrow> []
      | Some e \<Rightarrow> r # concat (map (preorder k doc) (element_children (childNodes e))))"

definition all_elements :: "document \<Rightarrow> node_ref list" where
  "all_elements doc = preorder (length doc) doc 0"

datatype simple_selector = Universal | ByTag string | ById string | ByClass string | ByAttr string

definition ident_start :: "char \<Rightarrow> bool" where
  "ident_start c =
     (let n = (of_char c :: nat) in (65 \<le> n \<and> n \<le> 90) \<or> (97 \<le> n \<and> n \<le> 122) \<or> n = 95)"

definition ident_char :: "char \<Rightarrow> bool" where
  "ident_char c = (ident_start c \<or> (let n = (of_char c :: nat) in (48 \<le> n \<and> n \<le> 57) \<or> n = 45))"

definition is_ident :: "string \<Rightarrow> bool" where
  "is_ident s = (case s of [] \<Rightarrow> False | c # cs \<Rightarrow> ident_start c \<and> list_all ident_char cs)"

definition parse_simple :: "string \<Rightarrow> simple_selector option" where
  "parse_simple s =
     (case s of
        [] \<Rightarrow> None
      | c # cs \<Rightarrow>
          if s = ''*'' then Some Universal
          else if c = CHR ''#'' \<and> is_ident cs then Some (ById cs)
          else if c = CHR ''.'' \<and> is_ident cs then Some (ByClass cs)
          else if c = CHR ''['' \<and> cs \<noteq> [] \<and> last cs = CHR '']'' \<and> is_ident (butlast cs)
            then Some (ByAttr (butlast cs))
          else if is_ident s then Some (ByTag s)
          else None)"

definition simple_matches :: "simple_selector \<Rightarrow> element \<Rightarrow> bool" where
  "simple_matches sel e =
     (case sel of
        Universal \<Rightarrow> True
      | ByTag t \<Rightarrow> toLowerCase (tagName e) = toLowerCase t
      | ById i \<Rightarrow> getAttribute e ''id'' = Some i
      | ByClass c \<Rightarrow> c \<in> set (classList e)
      | ByAttr a \<Rightarrow> hasAttribute e (toLowerCase a))"

definition matching :: "document \<Rightarrow> (element \<Rightarrow> bool) \<Rightarrow> node_ref list" where
  "matching doc P =
     filter (\<lambda>r. case lookup doc r of None \<Rightarrow> False | Some e \<Rightarrow> P e) (all_elements doc)"

definition simple_querySelectorAll :: "string \<Rightarrow> document \<Rightarrow> node_ref list option" where
  "simple_querySelectorAll s doc = map_option (\<lambda>sel. matching doc (simple_matches sel)) (parse_simple s)"

definition simple_getElementById :: "string \<Rightarrow> document \<Rightarrow> node_ref option" where
  "simple_getElementById i doc =
     (case matching doc (\<lambda>e. getAttribute e ''id'' = Some i) of [] \<Rightarrow> None | r # _ \<Rightarrow> Some r)"

definition simple_head :: "document \<Rightarrow> node_ref option" where
  "simple_head doc =
     (case filter (\<lambda>r. case lookup doc r of None \<Rightarrow> False | Some e \<Rightarrow> tagName e = ''HEAD'')
             (case lookup doc 0 of None \<Rightarrow> [] | Some e \<Rightarrow> element_children (childNodes e)) of
        [] \<Rightarrow> None
      | h # _ \<Rightarrow> Some h)"

text \<open>A valid attribute name: not empty, no ASCII white space, none of NUL, \<open>/\<close>, \<open>=\<close>, \<open>>\<close>.\<close>

definition simple_validAttributeName :: "string \<Rightarrow> bool" where
  "simple_validAttributeName a =
     (a \<noteq> [] \<and> list_all (\<lambda>c. \<not> ascii_whitespace c \<and> (of_char c :: nat) \<notin> {0, 47, 61, 62}) a)"

definition simple_dom :: dom_api where
  "simple_dom =
     \<lparr>querySelectorAll = simple_querySelectorAll, getElementById = simple_getElementById,
      documentHead = simple_head, validAttributeName = simple_validAttributeName\<rparr>"

definition html_element ::
  "string \<Rightarrow> (string \<times> string) list \<Rightarrow> child_node list \<Rightarrow> node_ref option \<Rightarrow> element" where
  "html_element tag attrs children parent =
     \<lparr>tagName = tag, kind = HTMLElement, attributes = attrs, style = (\<lambda>_. []),
      childNodes = children, parentElement = parent\<rparr>"

text \<open>
  \<^verbatim>\<open><html><head></head><body><ul><li>Apples</li><li>Bread</li></ul></body></html>\<close>
\<close>

definition list_page :: document where
  "list_page =
     [html_element ''HTML'' [] [ElementNode 1, ElementNode 2] None,
      html_element ''HEAD'' [] [] (Some 0),
      html_element ''BODY'' [] [ElementNode 3] (Some 0),
      html_element ''UL'' [] [ElementNode 4, ElementNode 5] (Some 2),
      html_element ''LI'' [] [TextNode ''Apples''] (Some 3),
      html_element ''LI'' [] [TextNode ''Bread''] (Some 3)]"

text \<open>
  A page with the widget mounted:
  \<^verbatim>\<open><html><head></head><body><h1 id="title">Old</h1><div id="chat-widget-root">\<close>
  \<^verbatim>\<open><div class="chat-widget-container bottom-right light">\<close>
  \<^verbatim>\<open><button class="chat-toggle" aria-label="Toggle chat"></button></div></div></body></html>\<close>
\<close>

definition widget_page :: document where
  "widget_page =
     [html_element ''HTML'' [] [ElementNode 1, ElementNode 2] None,
      html_element ''HEAD'' [] [] (Some 0),
      html_element ''BODY'' [] [ElementNode 3, ElementNode 4] (Some 0),
      html_element ''H1'' [(''id'', ''title'')] [TextNode ''Old''] (Some 2),
      html_element ''DIV'' [(''id'', ''chat-widget-root'')] [ElementNode 5] (Some 2),
      html_element ''DIV'' [(''class'', ''chat-widget-container bottom-right light'')]
        [ElementNode 6] (Some 4),
      html_element ''BUTTON'' [(''class'', ''chat-toggle''), (''aria-label'', ''Toggle chat'')]
        [] (Some 5)]"

section \<open>Auxiliary notions for the statements\<close>



text \<open>The document once the timers scheduled by a highlight call have fired.\<close>

definition highlight_then_restore ::
  "dom_api \<Rightarrow> string \<Rightarrow> effect \<Rightarrow> string \<Rightarrow> int \<Rightarrow> document \<Rightarrow> document" where
  "highlight_then_restore api selector eff color duration doc =
     (case highlightElements api selector eff color duration doc of
        (doc', timers, res) \<Rightarrow> fire_timers timers doc')"

text \<open>The text a list of stream parts carries: the concatenation of its text deltas.\<close>

fun delta_text :: "part \<Rightarrow> string" where
  "delta_text (TextDelta txt) = txt"
| "delta_text (ToolCall i name inp) = []"
| "delta_text (ToolResult i out) = []"
| "delta_text (ErrorPart e) = []"
| "delta_text OtherPart = []"

definition streamed_text :: "part list \<Rightarrow> string" where
  "streamed_text ps = concat (map delta_text ps)"

text \<open>Messages of the examples: a user message and the placeholder of the assistant.\<close>

definition example_messages :: "Message list" where
  "example_messages =
     [\<lparr>mid = ''1'', role = User, content = ''find the list'', toolInvocations = None, timestamp = 1\<rparr>,
      \<lparr>mid = ''2'', role = Assistant, content = [], toolInvocations = None, timestamp = 1\<rparr>]"

text \<open>
  Invariants of the orchestrator. \<open>turn_ok\<close>: the current tool call is the entry pushed
  last. \<open>one_turn\<close>: at most one call is running, and the loading flag is set while it
  runs. \<open>placeholder_at\<close>: the message at a position is the placeholder of the running
  call and shows the text streamed so far.
\<close>

definition turn_ok :: "turn \<Rightarrow> bool" where
  "turn_ok t = (currentToolCall t =
      (if invocations t = [] then None else Some (length (invocations t) - 1)))"

definition one_turn :: "widget \<Rightarrow> bool" where
  "one_turn w = (turns w = [] \<or> (length (turns w) = 1 \<and> isLoading w))"

definition placeholder_at :: "nat \<Rightarrow> turn \<times> Message list \<Rightarrow> bool" where
  "placeholder_at k s =
     (k < length (snd s) \<and> mid (snd s ! k) = assistantId (fst s) \<and> role (snd s ! k) = Assistant
      \<and> content (snd s ! k) = fullContent (fst s))"

text \<open>
  The loop of a highlight call followed by the firing of its timers, and the inline
  style the round trip leaves behind: glow keeps its colour.
\<close>

definition round_trip :: "effect \<Rightarrow> string \<Rightarrow> int \<Rightarrow> node_ref list \<Rightarrow> document \<Rightarrow> document" where
  "round_trip eff color duration rs doc =
     fire_timers (snd (highlight_each eff color duration rs doc))
       (fst (highlight_each eff color duration rs doc))"

definition after_round_trip :: "effect \<Rightarrow> string \<Rightarrow> (string \<Rightarrow> string) \<Rightarrow> (string \<Rightarrow> string)" where
  "after_round_trip eff color st = (if eff = Glow then st(''color'' := color) else st)"


section \<open>Facts about the store\<close>

lemma length_update_element [simp]: "length (update_element r f doc) = length doc"
  by (simp add: update_element_def)



section \<open>The mutation tool\<close>

lemma kind_set_style [simp]: "kind (set_style p v e) = kind e"
  by (simp add: set_style_def)









lemma modify_one_attribute_skipped:
  "nonempty attribute = None \<or> val = None
     \<Longrightarrow> modify_one api Attribute val attribute doc r = (doc, None)"
  by (auto simp: modify_one_def split: option.splits)

lemma modify_each_attribute_skipped:
  "nonempty attribute = None \<or> val = None
     \<Longrightarrow> modify_each api Attribute val attribute rs doc = (doc, None)"
  by (induction rs) (simp_all add: modify_one_attribute_skipped)

text \<open>
  C10. A mutate call with action \<open>attribute\<close> whose selector matches at least one node, but
  whose attribute name is missing (undefined or empty) or whose value is undefined,
  changes no node, and still reports success with the full match count: the
  requirement of both arguments is not enforced as a failure.
\<close>

theorem attribute_without_name_or_value_succeeds:
  assumes "querySelectorAll api selector doc = Some elements"
    and "elements \<noteq> []"
    and "nonempty attribute = None \<or> val = None"
  shows "modifyElement api selector Attribute val attribute doc
           = (doc, \<lparr>success = True, elementsModified = length elements\<rparr>)"
  using assms by (simp add: modifyElement_def modify_each_attribute_skipped)

theorem attribute_without_name_or_value_succeeds_witness:
  "querySelectorAll simple_dom ''h1'' widget_page = Some [3]
   \<and> nonempty None = None
   \<and> modifyElement simple_dom ''h1'' Attribute (Some ''x'') None widget_page
       = (widget_page, \<lparr>success = True, elementsModified = 1\<rparr>)"
proof -
  have q: "querySelectorAll simple_dom ''h1'' widget_page = Some [3]"
    by code_simp
  have n: "nonempty None = None \<or> Some ''x'' = None"
    by (simp add: nonempty_def)
  from attribute_without_name_or_value_succeeds [OF q _ n]
  show ?thesis using q by (simp add: nonempty_def)
qed



text \<open>
  A \<open>style\<close> call that throws keeps what it assigned before: the heading is red, and the
  call is reported as a failure.
\<close>

lemma style_throw_keeps_earlier_pairs:
  "get_style (widget_page ! 3) ''color'' = []
   \<and> get_style
        (fst (modifyElement simple_dom ''#title'' Style (Some ''color: red; length: 1'') None
                widget_page) ! 3) ''color'' = ''red''
   \<and> snd (modifyElement simple_dom ''#title'' Style (Some ''color: red; length: 1'') None
             widget_page)
       = \<lparr>success = False, elementsModified = 0\<rparr>
   \<and> snd (modifyElement simple_dom ''#title'' Style (Some ''color: red; font-size: 20px'') None
             widget_page)
       = \<lparr>success = True, elementsModified = 1\<rparr>"
  by code_simp


section \<open>The search tool\<close>

lemma length_map_filter_le: "length (List.map_filter f xs) \<le> length xs"
  by (simp add: List.map_filter_def)

lemma set_slice0_subset: "set (slice0 xs limit) \<subseteq> set xs"
  by (auto simp: slice0_def dest: in_set_takeD)

lemma length_slice0_le: "0 \<le> limit \<Longrightarrow> int (length (slice0 xs limit)) \<le> limit"
  by (simp add: slice0_def)

lemma locate_outside_widget:
  assumes "locate api st sv tag limit doc = Some elements" and "r \<in> set elements"
  shows "\<not> in_widget doc r"
proof -
  from assms(1) obtain cands
    where "elements = slice0 (filter (\<lambda>r. \<not> in_widget doc r) cands) limit"
    by (auto simp: locate_def)
  with assms(2) set_slice0_subset [of "filter (\<lambda>r. \<not> in_widget doc r) cands" limit]
  show ?thesis by auto
qed

lemma locate_length:
  assumes "locate api st sv tag limit doc = Some elements" and "0 \<le> limit"
  shows "int (length elements) \<le> limit"
  using assms by (auto simp: locate_def length_slice0_le)

lemma results_length:
  "0 \<le> limit \<Longrightarrow> int (length (results (searchElements api st sv tag limit doc))) \<le> limit"
proof (cases "locate api st sv tag limit doc")
  case None
  assume "0 \<le> limit"
  with None show ?thesis by (simp add: searchElements_def)
next
  case (Some elements)
  assume l: "0 \<le> limit"
  have "length (List.map_filter (describe doc) elements) \<le> length elements"
    by (rule length_map_filter_le)
  moreover from Some l have "int (length elements) \<le> limit" by (rule locate_length)
  ultimately show ?thesis using Some by (simp add: searchElements_def Let_def)
qed

text \<open>
  C7 (as amended). For every search of every kind whose limit is not negative, the
  result list is at most as long as the limit (10 when the limit is left out), and for
  every limit the results describe exactly the located nodes, none of which lies in the
  widget's subtree (no inclusive ancestor carries the class of the widget's root
  container). A search whose selector does not parse returns no result.
\<close>

theorem search_bounded_and_outside_widget:
  "(0 \<le> limit \<longrightarrow> int (length (results (searchElements api st sv tag limit doc))) \<le> limit)
   \<and> length (results (searchElements api st sv tag (limit_default None) doc)) \<le> 10
   \<and> (case locate api st sv tag limit doc of
         None \<Rightarrow> results (searchElements api st sv tag limit doc) = []
       | Some elements \<Rightarrow>
           results (searchElements api st sv tag limit doc) = List.map_filter (describe doc) elements
           \<and> (\<forall>r \<in> set elements. \<not> in_widget doc r))"
proof (intro conjI)
  show "0 \<le> limit \<longrightarrow> int (length (results (searchElements api st sv tag limit doc))) \<le> limit"
    by (simp add: results_length)
next
  have "int (length (results (searchElements api st sv tag 10 doc))) \<le> 10"
    by (rule results_length) simp
  then show "length (results (searchElements api st sv tag (limit_default None) doc)) \<le> 10"
    by (simp add: limit_default_def)
next
  show "case locate api st sv tag limit doc of
          None \<Rightarrow> results (searchElements api st sv tag limit doc) = []
        | Some elements \<Rightarrow>
            results (searchElements api st sv tag limit doc) = List.map_filter (describe doc) elements
            \<and> (\<forall>r \<in> set elements. \<not> in_widget doc r)"
    by (auto simp: searchElements_def Let_def locate_outside_widget split: option.splits)
qed

theorem search_bounded_and_outside_widget_witness:
  "(0::int) \<le> 10
   \<and> int (length (results (searchElements simple_dom SearchTag ''div'' None 10 widget_page))) \<le> 10
   \<and> locate simple_dom SearchTag ''div'' None 10 widget_page = Some [4]
   \<and> \<not> in_widget widget_page 4"
proof -
  have l: "locate simple_dom SearchTag ''div'' None 10 widget_page = Some [4]"
    by code_simp
  note t = search_bounded_and_outside_widget [of 10 simple_dom SearchTag "''div''" None widget_page]
  from t have "(0::int) \<le> 10
      \<longrightarrow> int (length (results (searchElements simple_dom SearchTag ''div'' None 10 widget_page))) \<le> 10"
    by (rule conjunct1)
  then have a: "int (length (results (searchElements simple_dom SearchTag ''div'' None 10 widget_page))) \<le> 10"
    by simp
  from t have "\<forall>r \<in> set [4]. \<not> in_widget widget_page r"
    unfolding l by simp
  then have b: "\<not> in_widget widget_page 4"
    by simp
  from a b l show ?thesis by simp
qed

text \<open>
  C7 as first stated (for every input, at most \<open>limit\<close> results) fails for a
  negative limit, which the schema accepts: \<^verbatim>\<open>slice(0, -1)\<close> drops the last match, and
  the search for the two list items returns one result.
\<close>

theorem search_negative_limit_exceeded:
  "length (results (searchElements simple_dom SearchTag ''li'' None (- 1) list_page)) = 1
   \<and> \<not> int (length (results (searchElements simple_dom SearchTag ''li'' None (- 1) list_page))) \<le> - 1"
  by code_simp




text \<open>
  C1 (the code departs from the claim). On the page
  \<^verbatim>\<open><ul><li>Apples</li><li>Bread</li></ul>\<close> the search by tag \<open>li\<close> returns two
  descriptors with no selector at all: the positional fallback stands inside the
  \<^verbatim>\<open>else if (el.className)\<close> branch, so a node with no identifier and no class never
  reaches it.
\<close>

theorem bare_list_items_get_no_selector:
  "searchElements simple_dom SearchTag ''li'' None 10 list_page
     = \<lparr>success_s = True,
        results =
          [\<lparr>tagName_out = ''li'', text_out = ''Apples'', id_out = None, classes_out = None,
            selector_out = None, attributes_out = None\<rparr>,
           \<lparr>tagName_out = ''li'', text_out = ''Bread'', id_out = None, classes_out = None,
            selector_out = None, attributes_out = None\<rparr>],
        totalFound = Some 2\<rparr>"
  by code_simp

text \<open>
  The same holds of every element with no identifier and no class attribute (SVG
  elements apart, whose \<open>className\<close> is an object), while an element whose classes are all
  widget classes does receive the positional selector.
\<close>

lemma no_id_no_class_no_selector:
  "el_id e = [] \<Longrightarrow> \<not> className_truthy e \<Longrightarrow> build_selector doc r e = (None, None, None)"
  by (simp add: build_selector_def)

lemma id_gives_hash_selector:
  "el_id e \<noteq> [] \<Longrightarrow> build_selector doc r e = (Some (el_id e), None, Some (''#'' @ el_id e))"
  by (simp add: build_selector_def)

lemma first_class_gives_dot_selector:
  "el_id e = [] \<Longrightarrow> className_truthy e
     \<Longrightarrow> filter (\<lambda>c. take 11 c \<noteq> ''chat-widget'') (classList e) = c # cs
     \<Longrightarrow> build_selector doc r e = (None, Some (c # cs), Some (''.'' @ c))"
  by (simp add: build_selector_def)

lemma widget_classes_only_gives_positional_selector:
  "el_id e = [] \<Longrightarrow> className_truthy e
     \<Longrightarrow> filter (\<lambda>c. take 11 c \<noteq> ''chat-widget'') (classList e) = []
     \<Longrightarrow> build_selector doc r e = (None, Some [], nth_child_selector doc r e)"
  by (simp add: build_selector_def)

section \<open>The highlight tool and the reach of the mutations\<close>

lemma css_names:
  "css_name ''border'' = ''border''"
  "css_name ''backgroundColor'' = ''background-color''"
  "css_name ''animation'' = ''animation''"
  "css_name ''boxShadow'' = ''box-shadow''"
  "css_name ''transition'' = ''transition''"
  "css_name ''color'' = ''color''"
  by code_simp+


lemma kind_apply_effect [simp]: "kind (apply_effect eff color duration e) = kind e"
  by (cases eff) (simp_all add: apply_effect_def)


lemma length_remove_node [simp]: "length (remove_node x doc) = length doc"
  by (simp add: remove_node_def split: option.splits)




lemma length_fold_remove [simp]: "length (fold remove_node rs doc) = length doc"
  by (induction rs arbitrary: doc) simp_all






lemma length_highlight_one [simp]: "length (fst (highlight_one eff c d doc x)) = length doc"
  by (simp add: highlight_one_def split: option.splits)

lemma kind_highlight_one [simp]: "r < length doc \<Longrightarrow> kind (fst (highlight_one eff c d doc x) ! r) = kind (doc ! r)"
  by (auto simp: highlight_one_def update_element_def nth_list_update split: option.splits)


lemma highlight_each_fst_length [simp]: "length (fst (highlight_each eff c d rs doc)) = length doc"
  by (induction rs arbitrary: doc) (simp_all split: prod.splits, metis fst_conv length_highlight_one)


lemma ensure_animations_keeps:
  "ensure_animations api doc = Inr doc1 \<Longrightarrow> r < length doc \<Longrightarrow>
   r < length doc1 \<and> kind (doc1 ! r) = kind (doc ! r) \<and> style (doc1 ! r) = style (doc ! r)"
  by (auto simp: ensure_animations_def update_element_def nth_append nth_list_update
       split: option.splits if_splits)

lemma restore_after_effect:
  "eff \<noteq> Glow \<Longrightarrow>
   style (restore_styles (capture e)
      (apply_effect eff color duration (set_style ''transition'' ''all 0.3s ease'' e))) = style e"
  by (cases eff)
     (auto simp: fun_eq_iff restore_styles_def capture_def apply_effect_def set_style_def
        get_style_def css_names)

lemma restore_after_glow:
  "style (restore_styles (capture e)
      (apply_effect Glow color duration (set_style ''transition'' ''all 0.3s ease'' e)))
   = (style e)(''color'' := color)"
  by (auto simp: fun_eq_iff restore_styles_def capture_def apply_effect_def set_style_def
        get_style_def css_names)

lemma highlight_one_frame:
  "x \<noteq> r \<Longrightarrow> fst (highlight_one eff c d doc r) ! x = doc ! x"
  by (auto simp: highlight_one_def update_element_def split: option.splits)

lemma highlight_each_frame:
  "x \<notin> set rs \<Longrightarrow> fst (highlight_each eff c d rs doc) ! x = doc ! x"
proof (induction rs arbitrary: doc)
  case Nil
  then show ?case by simp
next
  case (Cons r rs)
  then have "fst (highlight_each eff c d rs (fst (highlight_one eff c d doc r))) ! x
      = fst (highlight_one eff c d doc r) ! x" by simp
  also from Cons.prems have "\<dots> = doc ! x" by (simp add: highlight_one_frame)
  finally show ?case by (simp split: prod.splits) (metis fst_conv)
qed

lemma highlight_one_timers:
  "t \<in> set (snd (highlight_one eff c d doc r)) \<Longrightarrow> timer_element t = r"
  by (auto simp: highlight_one_def split: option.splits if_splits)

lemma highlight_each_timers:
  "t \<in> set (snd (highlight_each eff c d rs doc)) \<Longrightarrow> timer_element t \<in> set rs"
proof (induction rs arbitrary: doc)
  case Nil
  then show ?case by simp
next
  case (Cons r rs)
  obtain d1 ts1 where h1: "highlight_one eff c d doc r = (d1, ts1)"
    by (cases "highlight_one eff c d doc r")
  obtain d2 ts2 where h2: "highlight_each eff c d rs d1 = (d2, ts2)"
    by (cases "highlight_each eff c d rs d1")
  from Cons.prems h1 h2 have "t \<in> set ts1 \<or> t \<in> set ts2" by simp
  then show ?case
  proof
    assume "t \<in> set ts1"
    with h1 highlight_one_timers [of t eff c d doc r] show ?thesis by simp
  next
    assume "t \<in> set ts2"
    with h2 Cons.IH [of d1] show ?thesis by simp
  qed
qed

lemma length_fire_timers [simp]: "length (fire_timers ts doc) = length doc"
  unfolding fire_timers_def
  by (induction ts arbitrary: doc) (simp_all add: fire_timer_def)

lemma fire_timer_nth:
  "x < length doc \<Longrightarrow>
   fire_timer t doc ! x
     = (if x = timer_element t then restore_styles (timer_styles t) (doc ! x) else doc ! x)"
  by (simp add: fire_timer_def update_element_def)

lemma fire_timers_frame:
  "x < length doc \<Longrightarrow> \<forall>t \<in> set ts. timer_element t \<noteq> x \<Longrightarrow> fire_timers ts doc ! x = doc ! x"
  unfolding fire_timers_def
proof (induction ts arbitrary: doc)
  case Nil
  then show ?case by simp
next
  case (Cons t ts)
  have "length (fire_timer t doc) = length doc" by (simp add: fire_timer_def)
  with Cons show ?case by (simp add: fire_timer_nth)
qed

lemma fire_timers_local:
  "x < length d1 \<Longrightarrow> length d1 = length d2 \<Longrightarrow> d1 ! x = d2 ! x
     \<Longrightarrow> fire_timers ts d1 ! x = fire_timers ts d2 ! x"
  unfolding fire_timers_def
proof (induction ts arbitrary: d1 d2)
  case Nil
  then show ?case by simp
next
  case (Cons t ts)
  have l: "length (fire_timer t d1) = length (fire_timer t d2)"
    using Cons.prems by (simp add: fire_timer_def)
  have x: "x < length (fire_timer t d1)"
    using Cons.prems by (simp add: fire_timer_def)
  have x2: "x < length d2"
    using Cons.prems by simp
  have "fire_timer t d1 ! x
      = (if x = timer_element t then restore_styles (timer_styles t) (d1 ! x) else d1 ! x)"
    using Cons.prems(1) by (rule fire_timer_nth)
  also have "\<dots> = (if x = timer_element t then restore_styles (timer_styles t) (d2 ! x) else d2 ! x)"
    by (simp only: Cons.prems(3))
  also have "\<dots> = fire_timer t d2 ! x"
    using x2 by (rule fire_timer_nth [symmetric])
  finally have "fire_timer t d1 ! x = fire_timer t d2 ! x" .
  from Cons.IH [OF x l this] show ?case by simp
qed

lemma fire_timers_append: "fire_timers (ts @ ts') doc = fire_timers ts' (fire_timers ts doc)"
  by (simp add: fire_timers_def)

lemma round_trip_style:
  assumes "distinct rs" and "x \<in> set rs" and "x < length doc" and "kind (doc ! x) = HTMLElement"
  shows "style (round_trip eff c d rs doc ! x) = after_round_trip eff c (style (doc ! x))"
  using assms
proof (induction rs arbitrary: doc)
  case Nil
  then show ?case by simp
next
  case (Cons r rs)
  obtain d1 ts1 where h1: "highlight_one eff c d doc r = (d1, ts1)"
    by (cases "highlight_one eff c d doc r")
  obtain d2 ts2 where h2: "highlight_each eff c d rs d1 = (d2, ts2)"
    by (cases "highlight_each eff c d rs d1")
  have l1: "length d1 = length doc" using h1 length_highlight_one [of eff c d doc r] by simp
  have l2: "length d2 = length doc" using h2 l1 highlight_each_fst_length [of eff c d rs d1] by simp
  have rt: "round_trip eff c d (r # rs) doc = fire_timers ts2 (fire_timers ts1 d2)"
    using h1 h2 by (simp add: round_trip_def fire_timers_append)
  show ?case
  proof (cases "x = r")
    case True
    from Cons.prems(1) True have nx: "x \<notin> set rs" by simp
    have "\<forall>t \<in> set ts2. timer_element t \<noteq> x"
      using highlight_each_timers [of _ eff c d rs d1] h2 nx by auto
    then have s1: "fire_timers ts2 (fire_timers ts1 d2) ! x = fire_timers ts1 d2 ! x"
      using Cons.prems(3) l2 by (simp add: fire_timers_frame)
    have s2: "d2 ! x = d1 ! x"
      using highlight_each_frame [OF nx, of eff c d d1] h2 by simp
    have "highlight_one eff c d doc x
        = (update_element x
             (\<lambda>e. apply_effect eff c d (set_style ''transition'' ''all 0.3s ease'' e)) doc,
           [\<lparr>timer_element = x, timer_styles = capture (doc ! x), timer_delay = d\<rparr>])"
      using Cons.prems(3,4) by (simp add: highlight_one_def lookup_def)
    with h1 True
    have d1: "d1 = update_element x
        (\<lambda>e. apply_effect eff c d (set_style ''transition'' ''all 0.3s ease'' e)) doc"
      and ts1: "ts1 = [\<lparr>timer_element = x, timer_styles = capture (doc ! x), timer_delay = d\<rparr>]"
      by simp_all
    have s3: "d1 ! x = apply_effect eff c d (set_style ''transition'' ''all 0.3s ease'' (doc ! x))"
      unfolding d1 using Cons.prems(3) by (simp add: update_element_def)
    have s4: "fire_timers ts1 d2 ! x = restore_styles (capture (doc ! x)) (d2 ! x)"
      unfolding ts1 using Cons.prems(3) l2 by (simp add: fire_timers_def fire_timer_nth)
    have "round_trip eff c d (r # rs) doc ! x
        = restore_styles (capture (doc ! x))
            (apply_effect eff c d (set_style ''transition'' ''all 0.3s ease'' (doc ! x)))"
      unfolding rt s1 s4 s2 s3 by (rule refl)
    then show ?thesis
      by (cases "eff = Glow") (simp_all add: after_round_trip_def restore_after_glow restore_after_effect)
  next
    case False
    with Cons.prems have xin: "x \<in> set rs" and dis: "distinct rs" by simp_all
    have same: "d1 ! x = doc ! x"
      using highlight_one_frame [OF False, of eff c d doc] h1 by simp
    have "\<forall>t \<in> set ts1. timer_element t \<noteq> x"
      using highlight_one_timers [of _ eff c d doc r] h1 False by auto
    then have "fire_timers ts1 d2 ! x = d2 ! x"
      using Cons.prems(3) l2 by (simp add: fire_timers_frame)
    then have "fire_timers ts2 (fire_timers ts1 d2) ! x = fire_timers ts2 d2 ! x"
      using Cons.prems(3) l2 by (intro fire_timers_local) simp_all
    moreover have "style (round_trip eff c d rs d1 ! x) = after_round_trip eff c (style (d1 ! x))"
      using Cons.IH [OF dis xin, of d1] Cons.prems(3,4) l1 same by simp
    ultimately show ?thesis
      using rt h2 same by (simp add: round_trip_def)
  qed
qed

lemma documentHead_ensure_animations:
  "documentHead api doc \<noteq> None \<Longrightarrow> \<exists>doc1. ensure_animations api doc = Inr doc1"
  by (auto simp: ensure_animations_def split: option.splits)

text \<open>
  The round trip in the store model, where each style property stands on its own (a
  browser also couples a shorthand with its longhands, which the store does not
  represent): the properties the code captures come back, and glow leaves its colour.
\<close>

lemma highlight_round_trip:
  assumes "querySelectorAll api selector doc = Some elements"
    and "distinct elements"
    and "x \<in> set elements"
    and "x < length doc"
    and "kind (doc ! x) = HTMLElement"
    and "documentHead api doc \<noteq> None"
  shows "style (highlight_then_restore api selector eff color duration doc ! x)
           = after_round_trip eff color (style (doc ! x))"
proof -
  from assms(3) have ne: "elements \<noteq> []" by auto
  from assms(6) obtain doc1 where e: "ensure_animations api doc = Inr doc1"
    using documentHead_ensure_animations by blast
  from ensure_animations_keeps [OF e assms(4)] assms(5)
  have 1: "x < length doc1" and 2: "kind (doc1 ! x) = HTMLElement"
    and 3: "style (doc1 ! x) = style (doc ! x)" by simp_all
  have "highlight_then_restore api selector eff color duration doc
      = round_trip eff color duration elements doc1"
    using assms(1) ne e
    by (cases "highlight_each eff color duration elements doc1")
       (simp add: highlight_then_restore_def highlightElements_def round_trip_def)
  with round_trip_style [OF assms(2,3) 1 2, of eff color duration] 3
  show ?thesis by simp
qed

text \<open>
  C3 (the code departs from the claim). The timer writes back the five captured
  properties, which are all that the effects other than glow assign. Glow also assigns
  \<^verbatim>\<open>element.style.color\<close>, which is neither captured nor written back: after the
  duration has elapsed the heading below keeps the highlight colour it did not have
  before.
\<close>

theorem glow_color_not_restored:
  "get_style (widget_page ! 3) ''color'' = []
   \<and> get_style (highlight_then_restore simple_dom ''h1'' Glow ''#ff0000'' 2000 widget_page ! 3) ''color''
       = ''#ff0000''
   \<and> capture (highlight_then_restore simple_dom ''h1'' Glow ''#ff0000'' 2000 widget_page ! 3)
       = capture (widget_page ! 3)
   \<and> snd (snd (highlightElements simple_dom ''h1'' Glow ''#ff0000'' 2000 widget_page))
       = \<lparr>success_h = True, elementsHighlighted = 1\<rparr>"
  by code_simp




section \<open>The streaming orchestrator\<close>

lemma turn_ok_new: "turn_ok (new_turn aid)"
  by (simp add: turn_ok_def new_turn_def)

lemma consume_turn_ok: "turn_ok (fst s) \<Longrightarrow> turn_ok (fst (consume p s))"
  by (cases s; cases p) (auto simp: consume_def turn_ok_def Let_def split: option.splits)

lemma consume_all_turn_ok: "turn_ok (fst s) \<Longrightarrow> turn_ok (fst (consume_all ps s))"
  unfolding consume_all_def
  by (induction ps arbitrary: s) (simp_all add: consume_turn_ok)

lemma update_last: "xs \<noteq> [] \<Longrightarrow> xs[length xs - Suc 0 := y] = butlast xs @ [y]"
  by (cases xs rule: rev_cases) simp_all

lemma nth_last: "xs \<noteq> [] \<Longrightarrow> xs ! (length xs - Suc 0) = last xs"
  by (simp add: last_conv_nth)

lemma consume_result_current:
  assumes "turn_ok t" and "invocations t \<noteq> []" and "toolCallId (last (invocations t)) = i"
  shows "consume (ToolResult i out) (t, msgs) =
     (t\<lparr>invocations := butlast (invocations t) @ [(last (invocations t))\<lparr>result := Some out\<rparr>]\<rparr>,
      map (\<lambda>m. if mid m = assistantId t
                then m\<lparr>toolInvocations :=
                         Some (butlast (invocations t) @ [(last (invocations t))\<lparr>result := Some out\<rparr>])\<rparr>
                else m) msgs)"
  using assms by (simp add: consume_def turn_ok_def Let_def update_last nth_last)

lemma consume_result_other:
  assumes "turn_ok t" and "invocations t = [] \<or> toolCallId (last (invocations t)) \<noteq> i"
  shows "consume (ToolResult i out) (t, msgs) = (t, msgs)"
  using assms by (auto simp: consume_def turn_ok_def nth_last split: option.splits)

lemma consume_result_mismatch_kept:
  assumes "j < length (invocations t)" and "toolCallId (invocations t ! j) \<noteq> i"
  shows "invocations (fst (consume (ToolResult i out) (t, msgs))) ! j = invocations t ! j"
  using assms by (auto simp: consume_def Let_def nth_list_update split: option.splits)

lemma consume_result_unknown:
  assumes "turn_ok t" and "\<not> list_ex (\<lambda>v. toolCallId v = i) (invocations t)"
  shows "consume (ToolResult i out) (t, msgs) = (t, msgs)"
proof (rule consume_result_other [OF assms(1)])
  show "invocations t = [] \<or> toolCallId (last (invocations t)) \<noteq> i"
  proof (cases "invocations t = []")
    case True
    then show ?thesis by simp
  next
    case False
    then have "last (invocations t) \<in> set (invocations t)" by simp
    with assms(2) show ?thesis by (auto simp: list_ex_iff)
  qed
qed

lemma one_turn_initial: "one_turn (initial welcome now)"
  by (simp add: one_turn_def initial_def)

lemma remove_nth_single: "k < length xs \<Longrightarrow> length xs = 1 \<Longrightarrow> remove_nth k xs = []"
  by (cases xs) (simp_all add: remove_nth_def)

lemma step_one_turn: "one_turn w \<Longrightarrow> one_turn (step ev w)"
  by (cases ev)
     (auto simp: step_def one_turn_def remove_nth_single split: prod.splits)

lemma run_one_turn: "one_turn w \<Longrightarrow> one_turn (run evs w)"
  unfolding run_def
  by (induction evs arbitrary: w) (simp_all add: step_one_turn)

lemma submit_ignored_while_loading: "isLoading w \<Longrightarrow> step (Submit now1 now2) w = w"
  by (simp add: step_def)

lemma consume_length: "length (snd (consume p s)) = length (snd s)"
  by (cases s; cases p) (auto simp: consume_def Let_def split: option.splits)

lemma consume_assistantId: "assistantId (fst (consume p s)) = assistantId (fst s)"
  by (cases s; cases p) (auto simp: consume_def Let_def split: option.splits)

lemma consume_fullContent: "fullContent (fst (consume p s)) = fullContent (fst s) @ delta_text p"
  by (cases s; cases p) (auto simp: consume_def Let_def split: option.splits)

lemma consume_placeholder: "placeholder_at k s \<Longrightarrow> placeholder_at k (consume p s)"
  by (cases s; cases p) (auto simp: consume_def placeholder_at_def Let_def split: option.splits)

lemma consume_all_placeholder: "placeholder_at k s \<Longrightarrow> placeholder_at k (consume_all ps s)"
  unfolding consume_all_def
  by (induction ps arbitrary: s) (simp_all add: consume_placeholder)

lemma consume_all_length: "length (snd (consume_all ps s)) = length (snd s)"
  unfolding consume_all_def
  by (induction ps arbitrary: s) (simp_all add: consume_length)

lemma consume_all_fullContent:
  "fullContent (fst (consume_all ps s)) = fullContent (fst s) @ streamed_text ps"
  unfolding consume_all_def streamed_text_def
  by (induction ps arbitrary: s) (simp_all add: consume_fullContent)

lemma run_parts:
  "turns w = [t] \<Longrightarrow>
   run (map (StreamPart 0) ps) w
     = w\<lparr>messages := snd (consume_all ps (t, messages w)),
         turns := [fst (consume_all ps (t, messages w))]\<rparr>"
  unfolding run_def consume_all_def
proof (induction ps arbitrary: w t)
  case Nil
  then show ?case by simp
next
  case (Cons p ps)
  obtain t' msgs' where c: "consume p (t, messages w) = (t', msgs')"
    by (cases "consume p (t, messages w)")
  with Cons.prems have s: "step (StreamPart 0 p) w = w\<lparr>messages := msgs', turns := [t']\<rparr>"
    by (simp add: step_def)
  have "turns (w\<lparr>messages := msgs', turns := [t']\<rparr>) = [t']" by simp
  from Cons.IH [OF this] s c show ?case by simp
qed

text \<open>
  C4 (as amended). For every streamed tool-result event, at any point of a stream: if
  its identifier is that of the invocation opened last (the current tool call), the
  payload is attached to that invocation and the placeholder's invocation list is
  replaced by the updated one; otherwise, in particular when no recorded invocation
  carries the identifier, neither the invocations nor the messages change. A result is
  never attached to an invocation whose identifier differs.
\<close>

theorem tool_result_attaches_to_current_only:
  assumes "consume_all ps (new_turn aid, msgs0) = (t, msgs)"
  shows "(invocations t \<noteq> [] \<and> toolCallId (last (invocations t)) = i \<longrightarrow>
            consume (ToolResult i out) (t, msgs) =
              (t\<lparr>invocations := butlast (invocations t) @ [(last (invocations t))\<lparr>result := Some out\<rparr>]\<rparr>,
               map (\<lambda>m. if mid m = assistantId t
                         then m\<lparr>toolInvocations :=
                                  Some (butlast (invocations t)
                                        @ [(last (invocations t))\<lparr>result := Some out\<rparr>])\<rparr>
                         else m) msgs))
       \<and> (invocations t = [] \<or> toolCallId (last (invocations t)) \<noteq> i \<longrightarrow>
            consume (ToolResult i out) (t, msgs) = (t, msgs))
       \<and> (\<not> list_ex (\<lambda>v. toolCallId v = i) (invocations t) \<longrightarrow>
            consume (ToolResult i out) (t, msgs) = (t, msgs))
       \<and> (\<forall>j < length (invocations t). toolCallId (invocations t ! j) \<noteq> i \<longrightarrow>
            invocations (fst (consume (ToolResult i out) (t, msgs))) ! j = invocations t ! j)"
proof -
  have "turn_ok (fst (consume_all ps (new_turn aid, msgs0)))"
    by (rule consume_all_turn_ok) (simp add: turn_ok_new)
  with assms have ok: "turn_ok t" by simp
  show ?thesis
    using consume_result_current [OF ok] consume_result_other [OF ok]
      consume_result_unknown [OF ok] consume_result_mismatch_kept
    by blast
qed

theorem tool_result_attaches_to_current_only_witness:
  "consume (ToolResult ''t1'' ''{success:true}'')
     (consume_all [ToolCall ''t1'' ''searchElements'' ''{}''] (new_turn ''2'', example_messages))
   = (\<lparr>assistantId = ''2'', fullContent = [],
       invocations = [\<lparr>toolCallId = ''t1'', toolName = ''searchElements'', args = ''{}'',
                       result = Some ''{success:true}''\<rparr>],
       currentToolCall = Some 0\<rparr>,
      [\<lparr>mid = ''1'', role = User, content = ''find the list'', toolInvocations = None,
        timestamp = 1\<rparr>,
       \<lparr>mid = ''2'', role = Assistant, content = [],
        toolInvocations =
          Some [\<lparr>toolCallId = ''t1'', toolName = ''searchElements'', args = ''{}'',
                 result = Some ''{success:true}''\<rparr>],
        timestamp = 1\<rparr>])
   \<and> consume (ToolResult ''t2'' ''{success:true}'')
        (consume_all [ToolCall ''t1'' ''searchElements'' ''{}'', ToolResult ''t1'' ''{success:true}'']
           (new_turn ''2'', example_messages))
      = consume_all [ToolCall ''t1'' ''searchElements'' ''{}'', ToolResult ''t1'' ''{success:true}'']
          (new_turn ''2'', example_messages)"
proof -
  have d: "consume_all [ToolCall ''t1'' ''searchElements'' ''{}'', ToolResult ''t1'' ''{success:true}'']
        (new_turn ''2'', example_messages)
      = (\<lparr>assistantId = ''2'', fullContent = [],
          invocations = [\<lparr>toolCallId = ''t1'', toolName = ''searchElements'', args = ''{}'',
                          result = Some ''{success:true}''\<rparr>],
          currentToolCall = Some 0\<rparr>,
         [\<lparr>mid = ''1'', role = User, content = ''find the list'', toolInvocations = None,
           timestamp = 1\<rparr>,
          \<lparr>mid = ''2'', role = Assistant, content = [],
           toolInvocations =
             Some [\<lparr>toolCallId = ''t1'', toolName = ''searchElements'', args = ''{}'',
                    result = Some ''{success:true}''\<rparr>],
           timestamp = 1\<rparr>])"
    by (simp add: consume_all_def consume_def new_turn_def example_messages_def Let_def)
  from tool_result_attaches_to_current_only [OF d, of "''t2''" "''{success:true}''"]
  have u: "consume (ToolResult ''t2'' ''{success:true}'')
        (consume_all [ToolCall ''t1'' ''searchElements'' ''{}'', ToolResult ''t1'' ''{success:true}'']
           (new_turn ''2'', example_messages))
      = consume_all [ToolCall ''t1'' ''searchElements'' ''{}'', ToolResult ''t1'' ''{success:true}'']
          (new_turn ''2'', example_messages)"
    unfolding d by simp
  have c: "consume_all [ToolCall ''t1'' ''searchElements'' ''{}''] (new_turn ''2'', example_messages)
      = (\<lparr>assistantId = ''2'', fullContent = [],
          invocations = [\<lparr>toolCallId = ''t1'', toolName = ''searchElements'', args = ''{}'',
                          result = None\<rparr>],
          currentToolCall = Some 0\<rparr>, example_messages)"
    by (simp add: consume_all_def consume_def new_turn_def)
  from tool_result_attaches_to_current_only [OF c, of "''t1''" "''{success:true}''"]
  have "consume (ToolResult ''t1'' ''{success:true}'')
      (consume_all [ToolCall ''t1'' ''searchElements'' ''{}''] (new_turn ''2'', example_messages))
    = (\<lparr>assistantId = ''2'', fullContent = [],
        invocations = [\<lparr>toolCallId = ''t1'', toolName = ''searchElements'', args = ''{}'',
                        result = Some ''{success:true}''\<rparr>],
        currentToolCall = Some 0\<rparr>,
       [\<lparr>mid = ''1'', role = User, content = ''find the list'', toolInvocations = None,
         timestamp = 1\<rparr>,
        \<lparr>mid = ''2'', role = Assistant, content = [],
         toolInvocations =
           Some [\<lparr>toolCallId = ''t1'', toolName = ''searchElements'', args = ''{}'',
                  result = Some ''{success:true}''\<rparr>],
         timestamp = 1\<rparr>])"
    unfolding c by (simp add: example_messages_def)
  with u show ?thesis by blast
qed

text \<open>
  C4 as first stated (a result whose identifier matches an open invocation is
  attached to it) fails when two calls are open: after the calls \<open>t1\<close> and \<open>t2\<close> the
  invocation \<open>t1\<close> is open, yet the result for \<open>t1\<close> changes nothing, because only the
  current call \<open>t2\<close> is compared.
\<close>

theorem tool_result_for_earlier_open_call_dropped:
  "open_invocation
     (fst (consume_all [ToolCall ''t1'' ''searchElements'' ''{}'', ToolCall ''t2'' ''modifyElement'' ''{}'']
             (new_turn ''2'', example_messages))) ''t1''
   \<and> consume (ToolResult ''t1'' ''{success:true}'')
        (consume_all [ToolCall ''t1'' ''searchElements'' ''{}'', ToolCall ''t2'' ''modifyElement'' ''{}'']
           (new_turn ''2'', example_messages))
      = consume_all [ToolCall ''t1'' ''searchElements'' ''{}'', ToolCall ''t2'' ''modifyElement'' ''{}'']
          (new_turn ''2'', example_messages)"
  by (simp add: consume_all_def consume_def new_turn_def open_invocation_def)

text \<open>
  C5. When the stream faults, while it is being established (no part read) or after
  any parts have been read, the turn settles in error: a new system message with the
  generic failure notice is appended after the messages as they stood, the loading flag
  is cleared and no call is left running. The placeholder of the assistant stays in
  its place and keeps the text streamed before the fault.
\<close>

theorem fault_appends_system_notice:
  assumes "trim (input w) \<noteq> []" and "\<not> isLoading w" and "turns w = []"
  shows "messages (step (StreamFault 0 now3) (run (Submit now1 now2 # map (StreamPart 0) ps) w))
           = messages (run (Submit now1 now2 # map (StreamPart 0) ps) w)
             @ [\<lparr>mid = show_nat now3, role = System,
                 content = ''Sorry, something went wrong. Please try again.'',
                 toolInvocations = None, timestamp = now3\<rparr>]
       \<and> \<not> isLoading (step (StreamFault 0 now3) (run (Submit now1 now2 # map (StreamPart 0) ps) w))
       \<and> turns (step (StreamFault 0 now3) (run (Submit now1 now2 # map (StreamPart 0) ps) w)) = []
       \<and> length (messages (run (Submit now1 now2 # map (StreamPart 0) ps) w))
           = length (messages w) + 2
       \<and> role (messages (run (Submit now1 now2 # map (StreamPart 0) ps) w) ! (length (messages w) + 1))
           = Assistant
       \<and> content (messages (run (Submit now1 now2 # map (StreamPart 0) ps) w) ! (length (messages w) + 1))
           = streamed_text ps"
proof -
  define user where "user = \<lparr>mid = show_nat now1, role = User, content = trim (input w),
    toolInvocations = None, timestamp = now1\<rparr>"
  define holder where "holder = \<lparr>mid = show_nat (now2 + 1), role = Assistant, content = [],
    toolInvocations = None, timestamp = now2\<rparr>"
  define t0 where "t0 = new_turn (show_nat (now2 + 1))"
  define w0 where "w0 = w\<lparr>messages := messages w @ [user, holder], input := [], isLoading := True,
    turns := [t0]\<rparr>"
  define s where "s = consume_all ps (t0, messages w0)"
  define w1 where "w1 = run (Submit now1 now2 # map (StreamPart 0) ps) w"
  have sub: "step (Submit now1 now2) w = w0"
    using assms by (simp add: step_def w0_def user_def holder_def t0_def)
  have "turns w0 = [t0]" by (simp add: w0_def)
  then have "run (map (StreamPart 0) ps) w0 = w0\<lparr>messages := snd s, turns := [fst s]\<rparr>"
    unfolding s_def by (rule run_parts)
  with sub have w1: "w1 = w0\<lparr>messages := snd s, turns := [fst s]\<rparr>"
    by (simp add: w1_def run_def)
  have "placeholder_at (length (messages w) + 1) (t0, messages w0)"
    by (simp add: placeholder_at_def w0_def t0_def new_turn_def holder_def nth_append)
  then have p: "placeholder_at (length (messages w) + 1) s"
    unfolding s_def by (rule consume_all_placeholder)
  have len: "length (snd s) = length (messages w) + 2"
    by (simp add: s_def consume_all_length w0_def)
  have full: "fullContent (fst s) = streamed_text ps"
    by (simp add: s_def consume_all_fullContent t0_def new_turn_def)
  have f: "step (StreamFault 0 now3) w1
      = w1\<lparr>messages := messages w1 @ [errorMessage now3], isLoading := False, turns := []\<rparr>"
    by (simp add: step_def w1 remove_nth_def)
  from f p len full show ?thesis
    unfolding w1_def [symmetric]
    by (simp add: w1 errorMessage_def placeholder_at_def)
qed

theorem fault_appends_system_notice_witness:
  "trim (input ((initial ''Hello'' 0)\<lparr>input := ''hello''\<rparr>)) \<noteq> []
   \<and> messages (step (StreamFault 0 9)
        (run (Submit 5 6 # map (StreamPart 0) [TextDelta ''Hi'', TextDelta '' there''])
           ((initial ''Hello'' 0)\<lparr>input := ''hello''\<rparr>)))
      = messages
          (run (Submit 5 6 # map (StreamPart 0) [TextDelta ''Hi'', TextDelta '' there''])
             ((initial ''Hello'' 0)\<lparr>input := ''hello''\<rparr>))
        @ [\<lparr>mid = show_nat 9, role = System,
            content = ''Sorry, something went wrong. Please try again.'',
            toolInvocations = None, timestamp = 9\<rparr>]
   \<and> content
        (messages
           (run (Submit 5 6 # map (StreamPart 0) [TextDelta ''Hi'', TextDelta '' there''])
              ((initial ''Hello'' 0)\<lparr>input := ''hello''\<rparr>)) ! 2)
      = ''Hi there''"
proof -
  have a: "trim (input ((initial ''Hello'' 0)\<lparr>input := ''hello''\<rparr>)) \<noteq> []"
    by code_simp
  have b: "\<not> isLoading ((initial ''Hello'' 0)\<lparr>input := ''hello''\<rparr>)"
    by (simp add: initial_def)
  have c: "turns ((initial ''Hello'' 0)\<lparr>input := ''hello''\<rparr>) = []"
    by (simp add: initial_def)
  have d: "length (messages ((initial ''Hello'' 0)\<lparr>input := ''hello''\<rparr>)) + 1 = 2"
    by (simp add: initial_def)
  have e: "streamed_text [TextDelta ''Hi'', TextDelta '' there''] = ''Hi there''"
    by (simp add: streamed_text_def)
  from fault_appends_system_notice [OF a b c, of 9 5 6 "[TextDelta ''Hi'', TextDelta '' there'']"]
  show ?thesis using a unfolding d e by blast
qed

text \<open>
  C9. In every state the component reaches from its first render, at most one call of
  \<open>handleSubmit\<close> is running, and while one is running (from the submission until the
  stream is exhausted or faults) a new submission leaves the whole state unchanged.
\<close>

theorem no_concurrent_turns:
  "length (turns (run evs (initial welcome now))) \<le> 1
   \<and> (turns (run evs (initial welcome now)) \<noteq> [] \<longrightarrow>
        step (Submit now1 now2) (run evs (initial welcome now)) = run evs (initial welcome now))"
proof -
  have "one_turn (run evs (initial welcome now))"
    by (rule run_one_turn) (rule one_turn_initial)
  then show ?thesis
    by (auto simp: one_turn_def submit_ignored_while_loading)
qed

theorem no_concurrent_turns_witness:
  "turns (run [Typed ''hello'', Submit 5 6, Typed ''again''] (initial ''Hello'' 0)) \<noteq> []
   \<and> trim (input (run [Typed ''hello'', Submit 5 6, Typed ''again''] (initial ''Hello'' 0))) \<noteq> []
   \<and> step (Submit 7 8) (run [Typed ''hello'', Submit 5 6, Typed ''again''] (initial ''Hello'' 0))
      = run [Typed ''hello'', Submit 5 6, Typed ''again''] (initial ''Hello'' 0)"
proof -
  have a: "turns (run [Typed ''hello'', Submit 5 6, Typed ''again''] (initial ''Hello'' 0)) \<noteq> []"
    by code_simp
  have b: "trim (input (run [Typed ''hello'', Submit 5 6, Typed ''again''] (initial ''Hello'' 0))) \<noteq> []"
    by code_simp
  from no_concurrent_turns [of "[Typed ''hello'', Submit 5 6, Typed ''again'']" "''Hello''" 0 7 8]
  show ?thesis using a b by blast
qed

end
